theory Spec2Isabelle
  imports Complex_Main
begin

section \<open>Data model\<close>

text \<open>
  A bounding box is the 4-tuple \<open>(x0, y0, x1, y1)\<close> that pdfminer attaches to a text line
  (\<open>text_line.bbox\<close>); the code copies it with \<open>list(text_line.bbox)\<close>. The coordinates are
  Python floats. The code only compares and copies them, so they are modelled as reals:
  on floats other than NaN, \<open>min\<close> and \<open>max\<close> agree with the order of the reals.
\<close>

record bbox =
  x0 :: real
  y0 :: real
  x1 :: real
  y1 :: real

text \<open>
  A page layout is what iterating an \<open>LTPage\<close> yields. The code distinguishes elements that
  are instances of \<open>LTTextContainer\<close> from all others, and, inside a container, children that
  are instances of \<open>LTTextLine\<close> from all others.
\<close>

datatype item = LTTextLine bbox | LTItem

datatype element = LTTextContainer "item list" | LTElement

type_synonym page_layout = "element list"

text \<open>Exceptions of the Python code, each with the text that \<open>str(e)\<close> gives.\<close>

datatype error = ValueError string | IndexError string | LibraryError string

fun str_error :: "error \<Rightarrow> string" where
  "str_error (ValueError m) = m"
| "str_error (IndexError m) = m"
| "str_error (LibraryError m) = m"

text \<open>The dictionary object built by \<open>highlight_annotation\<close>, one field per key.\<close>

record annotation =
  F :: int
  Type :: string
  Subtype :: string
  C :: "real list"
  Rect :: "real list"
  QuadPoints :: "real list"

text \<open>
  A page of the document: its \<open>/Annots\<close> entry (\<open>None\<close> when the key is absent) and the
  rest of the page object, which the code never touches.
\<close>

record page =
  Annots :: "annotation list option"
  content :: string

section \<open>Parsing a citation\<close>

text \<open>
  Text is a list of 8-bit characters. On these the class \<open>\d\<close> of Python's regular
  expressions is the ten ASCII digits. Python integers are unbounded; the interpreter's
  configurable limit on the length of a digit string given to \<open>int\<close> is not modelled.
\<close>

definition is_digit :: "char \<Rightarrow> bool" where
  "is_digit c = (c \<in> set ''0123456789'')"

definition digit_value :: "char \<Rightarrow> int" where
  "digit_value c = int (of_char c) - 48"

text \<open>\<open>int(s)\<close> for a string of decimal digits.\<close>

definition py_int :: "string \<Rightarrow> int" where
  "py_int s = foldl (\<lambda>n c. 10 * n + digit_value c) 0 s"

text \<open>
  Matching a piece of a pattern at the start of a string gives the rest of the string
  after the match, or \<open>None\<close>. A literal:
\<close>

fun match_literal :: "string \<Rightarrow> string \<Rightarrow> string option" where
  "match_literal [] s = Some s"
| "match_literal (p # ps) [] = None"
| "match_literal (p # ps) (c # cs) = (if p = c then match_literal ps cs else None)"

text \<open>
  \<open>\d+\<close>: the longest run of digits, which must not be empty. In both patterns of the
  program what follows \<open>\d+\<close> is not a digit, so giving back digits never helps and the
  longest run is the only candidate.
\<close>

definition match_digits :: "string \<Rightarrow> (string \<times> string) option" where
  "match_digits s =
     (let run = takeWhile is_digit s
      in if run = [] then None else Some (run, dropWhile is_digit s))"

text \<open>The pattern \<open>Lines (\d+)-(\d+)\<close> at the start of a string: the two groups and the rest.\<close>

definition match_lines :: "string \<Rightarrow> ((string \<times> string) \<times> string) option" where
  "match_lines s =
     (case match_literal ''Lines '' s of None \<Rightarrow> None | Some s1 \<Rightarrow>
      case match_digits s1 of None \<Rightarrow> None | Some (group1, s2) \<Rightarrow>
      case match_literal ''-'' s2 of None \<Rightarrow> None | Some s3 \<Rightarrow>
      case match_digits s3 of None \<Rightarrow> None | Some (group2, s4) \<Rightarrow>
        Some ((group1, group2), s4))"

text \<open>
  \<open>re.findall(pattern, text)\<close>: scan from the left; where the pattern matches, keep the
  groups and go on after the match; elsewhere move one character on.
\<close>

function findall_lines :: "string \<Rightarrow> (string \<times> string) list" where
  "findall_lines [] = []"
| "findall_lines (c # cs) =
     (case match_lines (c # cs) of
        Some (groups, rest) \<Rightarrow> groups # findall_lines rest
      | None \<Rightarrow> findall_lines cs)"
  by pat_completeness auto
termination
proof (relation "measure length")
  show "wf (measure length)" by simp
next
  fix c :: char and cs :: string and x2 groups rest
  assume m: "match_lines (c # cs) = Some x2" and x2: "(groups, rest) = x2"
  have lit: "match_literal p s = Some r \<Longrightarrow> length p + length r = length s" for p s r
    by (induction p s rule: match_literal.induct) (auto split: if_splits)
  have dig: "match_digits s = Some (g, r) \<Longrightarrow> length r \<le> length s" for s g r
    by (auto simp: match_digits_def Let_def length_dropWhile_le split: if_splits)
  from m x2 obtain s1 g1 s2 s3 g2 where
    "match_literal ''Lines '' (c # cs) = Some s1" "match_digits s1 = Some (g1, s2)"
    "match_literal ''-'' s2 = Some s3" "match_digits s3 = Some (g2, rest)"
    by (auto simp: match_lines_def split: option.splits prod.splits)
  then have "length rest < length (c # cs)"
    using lit[of "''Lines ''" "c # cs" s1] lit[of "''-''" s2 s3]
      dig[of s1 g1 s2] dig[of s3 g2 rest]
    by simp
  then show "(rest, c # cs) \<in> measure length" by simp
next
  fix c :: char and cs :: string
  assume "match_lines (c # cs) = None"
  show "(cs, c # cs) \<in> measure length" by simp
qed

text \<open>
  \<open>extract_lines\<close>: for every match the inner loop appends \<open>(1, line)\<close> for each line of
  \<open>range(start_line, end_line + 1)\<close>.
\<close>

definition extract_lines :: "string \<Rightarrow> (int \<times> int) list" where
  "extract_lines text =
     foldl (\<lambda>result m.
              let start_line = py_int (fst m); end_line = py_int (snd m)
              in foldl (\<lambda>result line. result @ [(1, line)]) result [start_line..end_line])
       [] (findall_lines text)"


text \<open>
  \<open>[^,]+\.pdf\<close> in the pattern of the document name. The run of characters other than a
  comma is taken whole: the pattern goes on with a comma, which no shorter part of the run
  is followed by. The run must end in \<open>.pdf\<close> with at least one character before it.
\<close>

definition match_name :: "string \<Rightarrow> (string \<times> string) option" where
  "match_name s =
     (let run = takeWhile (\<lambda>c. c \<noteq> CHR '','') s
      in if 4 < length run \<and> drop (length run - 4) run = ''.pdf''
         then Some (run, dropWhile (\<lambda>c. c \<noteq> CHR '','') s)
         else None)"

text \<open>
  The pattern \<open>\(([^,]+\.pdf), Lines \d+-\d+\)\<close> at the start of a string: group 1.
\<close>

definition match_document :: "string \<Rightarrow> string option" where
  "match_document s =
     (case match_literal ''('' s of None \<Rightarrow> None | Some s1 \<Rightarrow>
      case match_name s1 of None \<Rightarrow> None | Some (name, s2) \<Rightarrow>
      case match_literal '', Lines '' s2 of None \<Rightarrow> None | Some s3 \<Rightarrow>
      case match_digits s3 of None \<Rightarrow> None | Some (start_digits, s4) \<Rightarrow>
      case match_literal ''-'' s4 of None \<Rightarrow> None | Some s5 \<Rightarrow>
      case match_digits s5 of None \<Rightarrow> None | Some (end_digits, s6) \<Rightarrow>
      case match_literal '')'' s6 of None \<Rightarrow> None | Some s7 \<Rightarrow> Some name)"

text \<open>\<open>re.search(pattern, text)\<close>: the match at the leftmost position that has one.\<close>

fun search_document :: "string \<Rightarrow> string option" where
  "search_document [] = None"
| "search_document (c # cs) =
     (case match_document (c # cs) of
        Some name \<Rightarrow> Some name
      | None \<Rightarrow> search_document cs)"

definition extract_document_name :: "string \<Rightarrow> string option" where
  "extract_document_name text = search_document text"


section \<open>Locating a line: \<open>extract_line_bboxes\<close>\<close>

text \<open>
  The inner \<open>for text_line in element\<close> loop. It returns the counter and the boxes collected
  so far; the \<open>break\<close> leaves this loop only.
\<close>

fun scan_container :: "item list \<Rightarrow> int \<Rightarrow> int \<Rightarrow> bbox list \<Rightarrow> int \<times> bbox list" where
  "scan_container [] target_line_number current_line_number line_bboxes =
     (current_line_number, line_bboxes)"
| "scan_container (LTTextLine b # rest) target_line_number current_line_number line_bboxes =
     (let current_line_number = current_line_number + 1
      in if current_line_number = target_line_number
         then (current_line_number, line_bboxes @ [b])
         else scan_container rest target_line_number current_line_number line_bboxes)"
| "scan_container (LTItem # rest) target_line_number current_line_number line_bboxes =
     scan_container rest target_line_number current_line_number line_bboxes"

text \<open>The outer \<open>for element in page_layout\<close> loop; it goes on after an inner \<open>break\<close>.\<close>

fun scan_layout :: "element list \<Rightarrow> int \<Rightarrow> int \<Rightarrow> bbox list \<Rightarrow> bbox list" where
  "scan_layout [] target_line_number current_line_number line_bboxes = line_bboxes"
| "scan_layout (LTTextContainer items # rest) target_line_number current_line_number line_bboxes =
     (case scan_container items target_line_number current_line_number line_bboxes of
        (current_line_number, line_bboxes) \<Rightarrow>
          scan_layout rest target_line_number current_line_number line_bboxes)"
| "scan_layout (LTElement # rest) target_line_number current_line_number line_bboxes =
     scan_layout rest target_line_number current_line_number line_bboxes"

definition extract_line_bboxes :: "page_layout \<Rightarrow> int \<Rightarrow> bbox list" where
  "extract_line_bboxes page_layout target_line_number =
     scan_layout page_layout target_line_number 0 []"

text \<open>
  The text lines of a page in layout order, as the specification counts them: one running
  count across all text containers, starting at 1.
\<close>

fun container_lines :: "item list \<Rightarrow> bbox list" where
  "container_lines [] = []"
| "container_lines (LTTextLine b # rest) = b # container_lines rest"
| "container_lines (LTItem # rest) = container_lines rest"

fun text_lines :: "page_layout \<Rightarrow> bbox list" where
  "text_lines [] = []"
| "text_lines (LTTextContainer items # rest) = container_lines items @ text_lines rest"
| "text_lines (LTElement # rest) = text_lines rest"

section \<open>Building a highlight: \<open>highlight_annotation\<close>\<close>

text \<open>
  Python's \<open>min\<close> and \<open>max\<close> over a list: they keep the first extreme element and raise
  \<open>ValueError\<close> on an empty list.
\<close>

definition py_min :: "real list \<Rightarrow> error + real" where
  "py_min xs =
     (case xs of
        [] \<Rightarrow> Inl (ValueError ''min() arg is an empty sequence'')
      | x # rest \<Rightarrow> Inr (foldl (\<lambda>m v. if v < m then v else m) x rest))"

definition py_max :: "real list \<Rightarrow> error + real" where
  "py_max xs =
     (case xs of
        [] \<Rightarrow> Inl (ValueError ''max() arg is an empty sequence'')
      | x # rest \<Rightarrow> Inr (foldl (\<lambda>m v. if v > m then v else m) x rest))"

text \<open>The loop \<open>for bbox in bounds: quad_points.extend([x1, y2, x2, y2, x1, y1, x2, y1])\<close>.\<close>

definition quad_points_of :: "bbox list \<Rightarrow> real list" where
  "quad_points_of bounds =
     foldl (\<lambda>quad_points b.
              quad_points @ [x0 b, y1 b, x1 b, y1 b, x0 b, y0 b, x1 b, y0 b]) [] bounds"

text \<open>
  \<open>x0, y0, x1, y1 = [list(s) for s in zip(*bounds)]\<close> transposes the boxes into four
  columns. With no box at all \<open>zip()\<close> yields nothing and the unpacking raises
  \<open>ValueError\<close>.
\<close>

definition highlight_annotation :: "bbox list \<Rightarrow> real list \<Rightarrow> error + annotation" where
  "highlight_annotation bounds color =
     (if bounds = [] then Inl (ValueError ''not enough values to unpack (expected 4, got 0)'')
      else
        case py_min (map x0 bounds) of Inl e \<Rightarrow> Inl e | Inr rx0 \<Rightarrow>
        case py_min (map y0 bounds) of Inl e \<Rightarrow> Inl e | Inr ry0 \<Rightarrow>
        case py_max (map x1 bounds) of Inl e \<Rightarrow> Inl e | Inr rx1 \<Rightarrow>
        case py_max (map y1 bounds) of Inl e \<Rightarrow> Inl e | Inr ry1 \<Rightarrow>
          Inr \<lparr>F = 4, Type = ''/Annot'', Subtype = ''/Highlight'', C = color,
               Rect = [rx0, ry0, rx1, ry1], QuadPoints = quad_points_of bounds\<rparr>)"

definition default_color :: "real list" where
  "default_color = [1, 1, 0]"

section \<open>Attaching an annotation to a page\<close>

text \<open>
  Lines 160 to 163 of \<open>view_pdf\<close>: append to the page's \<open>/Annots\<close> array when the key is
  there, store a new one-element array otherwise.
\<close>

definition attach :: "page \<Rightarrow> annotation \<Rightarrow> page" where
  "attach pg highlight =
     (case Annots pg of
        Some annots \<Rightarrow> pg\<lparr>Annots := Some (annots @ [highlight])\<rparr>
      | None \<Rightarrow> pg\<lparr>Annots := Some [highlight]\<rparr>)"

definition annotation_list :: "page \<Rightarrow> annotation list" where
  "annotation_list pg = (case Annots pg of Some annots \<Rightarrow> annots | None \<Rightarrow> [])"

text \<open>
  The body of the loop over \<open>lines_to_highlight\<close> (lines 157 to 163): locate the line,
  and only when the result is not empty build the highlight and attach it.
\<close>

definition highlight_line :: "page_layout \<Rightarrow> page \<Rightarrow> int \<Rightarrow> error + page" where
  "highlight_line layout pg line_number =
     (let line_bboxes = extract_line_bboxes layout line_number
      in if line_bboxes \<noteq> []
         then (case highlight_annotation line_bboxes default_color of
                 Inl e \<Rightarrow> Inl e
               | Inr highlight \<Rightarrow> Inr (attach pg highlight))
         else Inr pg)"

section \<open>The highlight endpoint: \<open>view_pdf\<close>\<close>

text \<open>
  The collaborators outside the program are parameters: the HTTP client (\<open>requests.get\<close>,
  giving the status code and the content, or raising), pypdf's reader (the pages of a
  document), pdfminer's \<open>extract_pages\<close> (the layouts of its pages) and pypdf's writer
  (the bytes of the written pages).
\<close>

record env =
  requests_get :: "string \<Rightarrow> error + (int \<times> string)"
  PdfReader :: "string \<Rightarrow> error + page list"
  extract_pages :: "string \<Rightarrow> error + page_layout list"
  PdfWriter_write :: "page list \<Rightarrow> error + string"

datatype body = Text string | File string

text \<open>
  What a request leaves behind: the URLs it fetched, in order, and the response (body and
  status code).
\<close>

record outcome =
  fetched :: "string list"
  response :: "body \<times> int"

text \<open>The f-string of line 125; Python formats \<open>None\<close> as the text \<open>None\<close>.\<close>

definition PDF_URL :: "string option \<Rightarrow> string" where
  "PDF_URL document_name =
     ''https://ioclhrchatgpt.blob.core.windows.net/hrhbtb-pdf-chunks/'' @
     (case document_name of None \<Rightarrow> ''None'' | Some name \<Rightarrow> name)"

text \<open>The loop \<open>for line_number in lines_to_highlight\<close>.\<close>

fun highlight_lines :: "page_layout \<Rightarrow> page \<Rightarrow> int list \<Rightarrow> error + page" where
  "highlight_lines layout pg [] = Inr pg"
| "highlight_lines layout pg (line_number # rest) =
     (case highlight_line layout pg line_number of
        Inl e \<Rightarrow> Inl e
      | Inr pg' \<Rightarrow> highlight_lines layout pg' rest)"

text \<open>
  The loop \<open>for page_num, page in enumerate(reader.pages, start=1)\<close>; \<open>writer\<close> is the list
  of pages added so far. \<open>page_num - 1\<close> is never negative, so the index is out of range
  only when it is too large.
\<close>

fun highlight_pages ::
  "env \<Rightarrow> string \<Rightarrow> (int \<times> int) list \<Rightarrow> int \<Rightarrow> page list \<Rightarrow> page list \<Rightarrow> error + page list"
where
  "highlight_pages env pdf_content page_line_pairs page_num [] writer = Inr writer"
| "highlight_pages env pdf_content page_line_pairs page_num (pg # rest) writer =
     (case extract_pages env pdf_content of
        Inl e \<Rightarrow> Inl e
      | Inr layouts \<Rightarrow>
          if 0 \<le> page_num - 1 \<and> nat (page_num - 1) < length layouts
          then
            let page_layout = layouts ! nat (page_num - 1);
                lines_to_highlight =
                  map snd (filter (\<lambda>(p, line_num). p = page_num) page_line_pairs)
            in case (if lines_to_highlight \<noteq> []
                     then highlight_lines page_layout pg lines_to_highlight
                     else Inr pg) of
                 Inl e \<Rightarrow> Inl e
               | Inr pg' \<Rightarrow>
                   highlight_pages env pdf_content page_line_pairs (page_num + 1) rest
                     (writer @ [pg'])
          else Inl (IndexError ''list index out of range''))"

text \<open>The body of the \<open>try\<close> block up to the written bytes.\<close>

definition highlight_document :: "env \<Rightarrow> string \<Rightarrow> (int \<times> int) list \<Rightarrow> error + string" where
  "highlight_document env pdf_content page_line_pairs =
     (case PdfReader env pdf_content of
        Inl e \<Rightarrow> Inl e
      | Inr pages \<Rightarrow>
          case highlight_pages env pdf_content page_line_pairs 1 pages [] of
            Inl e \<Rightarrow> Inl e
          | Inr writer \<Rightarrow> PdfWriter_write env writer)"

text \<open>
  \<open>view_pdf\<close>, in the order of the source: the document name, the fetch, the check of the
  status code, the check for an empty text, the line references, the \<open>try\<close> block. An
  exception of the fetch is outside the \<open>try\<close> block and ends as the framework's 500
  response. A response returned without a status code has status 200.
\<close>

definition view_pdf :: "env \<Rightarrow> string \<Rightarrow> outcome" where
  "view_pdf env chatbot_response =
     (let document_name = extract_document_name chatbot_response;
          url = PDF_URL document_name
      in case requests_get env url of
           Inl e \<Rightarrow> \<lparr>fetched = [url], response = (Text ''Internal Server Error'', 500)\<rparr>
         | Inr (status_code, pdf_content) \<Rightarrow>
             if status_code \<noteq> 200
             then \<lparr>fetched = [url], response = (Text ''Unable to fetch the PDF.'', 500)\<rparr>
             else if chatbot_response = []
             then \<lparr>fetched = [url], response = (Text ''No chatbot response provided.'', 200)\<rparr>
             else
               let page_line_pairs = extract_lines chatbot_response
               in if page_line_pairs = []
                  then \<lparr>fetched = [url], response = (Text ''No lines to highlight.'', 400)\<rparr>
                  else
                    case highlight_document env pdf_content page_line_pairs of
                      Inl e \<Rightarrow>
                        \<lparr>fetched = [url],
                         response = (Text (''An error occurred: '' @ str_error e), 500)\<rparr>
                    | Inr output_stream \<Rightarrow>
                        \<lparr>fetched = [url], response = (File output_stream, 200)\<rparr>)"

section \<open>Sample collaborators\<close>

text \<open>
  Two concrete environments on which the endpoint can be evaluated. In the first the store
  serves every URL, the document has one page with one text line, and the writer gives
  the content of each page followed by one \<open>*\<close> per annotation. In the second the store
  answers 404 to every URL.
\<close>

definition sample_page :: page where
  "sample_page = \<lparr>Annots = None, content = ''p1''\<rparr>"

definition sample_layout :: page_layout where
  "sample_layout = [LTTextContainer [LTTextLine \<lparr>x0 = 1, y0 = 2, x1 = 5, y1 = 6\<rparr>]]"

definition sample_env :: env where
  "sample_env =
     \<lparr>requests_get = (\<lambda>url. Inr (200, ''%PDF'')),
      PdfReader = (\<lambda>pdf_content. Inr [sample_page]),
      extract_pages = (\<lambda>pdf_content. Inr [sample_layout]),
      PdfWriter_write =
        (\<lambda>pages. Inr (concat (map (\<lambda>pg. content pg @
           replicate (length (annotation_list pg)) CHR ''*'') pages)))\<rparr>"

definition missing_blob_env :: env where
  "missing_blob_env = sample_env\<lparr>requests_get := (\<lambda>url. Inr (404, []))\<rparr>"

section \<open>Properties of the line locator\<close>

lemma scan_container_eq:
  "scan_container items t cur acc =
     (if cur < t \<and> t \<le> cur + int (length (container_lines items))
      then (t, acc @ [container_lines items ! nat (t - cur - 1)])
      else (cur + int (length (container_lines items)), acc))"
proof (induction items t cur acc rule: scan_container.induct)
  case (1 t cur acc)
  show ?case by simp
next
  case (2 b rest t cur acc)
  show ?case
  proof (cases "cur + 1 = t")
    case True
    then show ?thesis by auto
  next
    case False
    have idx: "cur < t \<Longrightarrow> nat (t - cur - 1) = Suc (nat (t - (cur + 1) - 1))"
      using False by simp
    from False 2 show ?thesis
      by (auto simp: Let_def idx)
  qed
next
  case (3 rest t cur acc)
  then show ?case by simp
qed

lemma scan_layout_eq:
  "scan_layout els t cur acc =
     (if cur < t \<and> t \<le> cur + int (length (text_lines els))
      then acc @ [text_lines els ! nat (t - cur - 1)]
      else acc)"
proof (induction els t cur acc rule: scan_layout.induct)
  case (1 t cur acc)
  show ?case by simp
next
  case (2 items rest t cur acc)
  let ?k = "int (length (container_lines items))"
  show ?case
  proof (cases "cur < t \<and> t \<le> cur + ?k")
    case True
    then have sc: "scan_container items t cur acc =
        (t, acc @ [container_lines items ! nat (t - cur - 1)])"
      by (simp add: scan_container_eq)
    have lt: "nat (t - cur - 1) < length (container_lines items)"
      using True by linarith
    show ?thesis
      using True lt by (simp add: sc "2.IH"[OF sc[symmetric]] nth_append)
  next
    case False
    then have sc: "scan_container items t cur acc = (cur + ?k, acc)"
      by (simp add: scan_container_eq)
    have idx: "cur + ?k < t \<Longrightarrow>
        nat (t - cur - 1) = length (container_lines items) + nat (t - (cur + ?k) - 1)"
      by linarith
    have ge: "cur + ?k < t \<Longrightarrow> \<not> nat (t - cur - 1) < length (container_lines items)"
      by linarith
    show ?thesis
      using False
      by (auto simp: sc "2.IH"[OF sc[symmetric]] nth_append idx ge)
  qed
next
  case (3 rest t cur acc)
  then show ?case by simp
qed

lemma extract_line_bboxes_value:
  "extract_line_bboxes layout N =
     (if 1 \<le> N \<and> N \<le> int (length (text_lines layout))
      then [text_lines layout ! nat (N - 1)]
      else [])"
  unfolding extract_line_bboxes_def
  by (simp add: scan_layout_eq)

text \<open>
  C3. For a page layout with \<open>K\<close> text lines, counted across all text containers in layout
  order from 1, \<open>extract_line_bboxes layout N\<close> is exactly the one-element sequence holding
  the box of the \<open>N\<close>-th counted line when \<open>1 \<le> N \<le> K\<close>, and is empty otherwise: for
  \<open>N = 0\<close>, for \<open>N > K\<close>, and so for every \<open>N\<close> on a page without text lines.
\<close>

theorem extract_line_bboxes_nth:
  "extract_line_bboxes layout N =
     (if 1 \<le> N \<and> N \<le> int (length (text_lines layout))
      then [text_lines layout ! nat (N - 1)]
      else [])"
  by (rule extract_line_bboxes_value)

section \<open>Properties of the highlight builder\<close>

lemma foldl_keep_min:
  "foldl (\<lambda>m v. if v < m then v else m) (x::real) xs = Min (set (x # xs))"
proof -
  have eq: "(\<lambda>v m. if v < m then v else m) = (min :: real \<Rightarrow> real \<Rightarrow> real)"
    by (auto simp: fun_eq_iff min_def)
  have "foldl (\<lambda>m v. if v < m then v else m) x xs =
      fold (\<lambda>v m. if v < m then v else m) xs x"
    by (simp add: foldl_conv_fold)
  also have "\<dots> = fold min xs x"
    by (rule arg_cong[where f = "\<lambda>f. fold f xs x", OF eq])
  finally have "foldl (\<lambda>m v. if v < m then v else m) x xs = fold min xs x" .
  then show ?thesis
    by (simp only: Min.set_eq_fold)
qed

lemma foldl_keep_max:
  "foldl (\<lambda>m v. if v > m then v else m) (x::real) xs = Max (set (x # xs))"
proof -
  have eq: "(\<lambda>v m. if v > m then v else m) = (max :: real \<Rightarrow> real \<Rightarrow> real)"
    by (auto simp: fun_eq_iff max_def)
  have "foldl (\<lambda>m v. if v > m then v else m) x xs =
      fold (\<lambda>v m. if v > m then v else m) xs x"
    by (simp add: foldl_conv_fold)
  also have "\<dots> = fold max xs x"
    by (rule arg_cong[where f = "\<lambda>f. fold f xs x", OF eq])
  finally have "foldl (\<lambda>m v. if v > m then v else m) x xs = fold max xs x" .
  then show ?thesis
    by (simp only: Max.set_eq_fold)
qed

lemma py_min_Min: "xs \<noteq> [] \<Longrightarrow> py_min xs = Inr (Min (set xs))"
  unfolding py_min_def by (cases xs) (simp_all only: foldl_keep_min list.case, simp)

lemma py_max_Max: "xs \<noteq> [] \<Longrightarrow> py_max xs = Inr (Max (set xs))"
  unfolding py_max_def by (cases xs) (simp_all only: foldl_keep_max list.case, simp)

lemma highlight_annotation_value:
  assumes "bounds \<noteq> []"
  shows "highlight_annotation bounds color =
     Inr \<lparr>F = 4, Type = ''/Annot'', Subtype = ''/Highlight'', C = color,
          Rect = [Min (x0 ` set bounds), Min (y0 ` set bounds),
                  Max (x1 ` set bounds), Max (y1 ` set bounds)],
          QuadPoints = quad_points_of bounds\<rparr>"
  using assms by (simp add: highlight_annotation_def py_min_Min py_max_Max)

lemma foldl_extend:
  "foldl (\<lambda>acc b. acc @ f b) acc bs = acc @ concat (map f bs)"
  by (induction bs arbitrary: acc) simp_all

lemma quad_points_of_concat:
  "quad_points_of bounds =
     concat (map (\<lambda>b. [x0 b, y1 b, x1 b, y1 b, x0 b, y0 b, x1 b, y0 b]) bounds)"
  unfolding quad_points_of_def by (simp only: foldl_extend append_Nil)

lemma length_concat_eights:
  "length (concat (map (\<lambda>b. [f1 b, f2 b, f3 b, f4 b, f5 b, f6 b, f7 b, f8 b]) bs)) =
     8 * length bs"
  by (induction bs) simp_all

text \<open>
  C4. For every non-empty sequence of bounding boxes, \<open>highlight_annotation\<close> returns an
  annotation whose \<open>/Rect\<close> is the componentwise bounding union of the boxes: the least
  \<open>x0\<close>, the least \<open>y0\<close>, the greatest \<open>x1\<close> and the greatest \<open>y1\<close>.
\<close>

theorem highlight_annotation_rect:
  assumes "bounds \<noteq> []"
  shows "\<exists>a. highlight_annotation bounds color = Inr a \<and>
           Rect a = [Min (x0 ` set bounds), Min (y0 ` set bounds),
                     Max (x1 ` set bounds), Max (y1 ` set bounds)]"
  using highlight_annotation_value[OF assms] by simp

theorem highlight_annotation_rect_witness:
  "\<exists>a. highlight_annotation
          [\<lparr>x0 = 1, y0 = 2, x1 = 5, y1 = 6\<rparr>, \<lparr>x0 = 0, y0 = 3, x1 = 4, y1 = 9\<rparr>] [1, 1, 0] = Inr a \<and>
        Rect a = [0, 2, 5, 9]"
  using highlight_annotation_rect
    [of "[\<lparr>x0 = 1, y0 = 2, x1 = 5, y1 = 6\<rparr>, \<lparr>x0 = 0, y0 = 3, x1 = 4, y1 = 9\<rparr>]" "[1, 1, 0]"]
  by simp

text \<open>
  C5. For every non-empty sequence of bounding boxes, the \<open>/QuadPoints\<close> of the annotation
  is the concatenation, in input order, of eight coordinates per box in the order
  \<open>(x0, y1), (x1, y1), (x0, y0), (x1, y0)\<close>; its length is eight times the number of boxes.
\<close>

theorem highlight_annotation_quad_points:
  assumes "bounds \<noteq> []"
  shows "\<exists>a. highlight_annotation bounds color = Inr a \<and>
           QuadPoints a =
             concat (map (\<lambda>b. [x0 b, y1 b, x1 b, y1 b, x0 b, y0 b, x1 b, y0 b]) bounds) \<and>
           length (QuadPoints a) = 8 * length bounds"
  using highlight_annotation_value[OF assms]
  by (simp add: quad_points_of_concat length_concat_eights)

theorem highlight_annotation_quad_points_witness:
  "\<exists>a. highlight_annotation
          [\<lparr>x0 = 1, y0 = 2, x1 = 5, y1 = 6\<rparr>, \<lparr>x0 = 0, y0 = 3, x1 = 4, y1 = 9\<rparr>] [1, 1, 0] = Inr a \<and>
        QuadPoints a = [1, 6, 5, 6, 1, 2, 5, 2, 0, 9, 4, 9, 0, 3, 4, 3] \<and>
        length (QuadPoints a) = 16"
  using highlight_annotation_quad_points
    [of "[\<lparr>x0 = 1, y0 = 2, x1 = 5, y1 = 6\<rparr>, \<lparr>x0 = 0, y0 = 3, x1 = 4, y1 = 9\<rparr>]" "[1, 1, 0]"]
  by simp

text \<open>
  C6. Called with an empty sequence of boxes, \<open>highlight_annotation\<close> fails with a
  \<open>ValueError\<close>, Python's invalid-input error. The pipeline never reaches it with zero
  boxes: when the locator's result for a line is empty, the step for that line returns the
  page as it is without building anything, and so the step never fails.
\<close>

theorem highlight_annotation_empty:
  "highlight_annotation [] color =
     Inl (ValueError ''not enough values to unpack (expected 4, got 0)'') \<and>
   (extract_line_bboxes layout n = [] \<longrightarrow> highlight_line layout pg n = Inr pg) \<and>
   (\<forall>e. highlight_line layout pg n \<noteq> Inl e)"
proof -
  have a: "highlight_annotation [] color =
      Inl (ValueError ''not enough values to unpack (expected 4, got 0)'')"
    by (simp add: highlight_annotation_def)
  have b: "extract_line_bboxes layout n = [] \<longrightarrow> highlight_line layout pg n = Inr pg"
    by (simp add: highlight_line_def)
  have c: "highlight_line layout pg n \<noteq> Inl e" for e
  proof (cases "extract_line_bboxes layout n = []")
    case True
    then show ?thesis by (simp add: highlight_line_def)
  next
    case False
    then show ?thesis
      by (simp add: highlight_line_def Let_def highlight_annotation_value)
  qed
  from a b c show ?thesis by blast
qed

theorem highlight_annotation_empty_witness:
  "extract_line_bboxes [LTTextContainer [LTTextLine \<lparr>x0 = 1, y0 = 2, x1 = 5, y1 = 6\<rparr>]] 2 = [] \<and>
   highlight_line [LTTextContainer [LTTextLine \<lparr>x0 = 1, y0 = 2, x1 = 5, y1 = 6\<rparr>]]
     \<lparr>Annots = None, content = ''p1''\<rparr> 2 = Inr \<lparr>Annots = None, content = ''p1''\<rparr>"
proof -
  have e: "extract_line_bboxes
      [LTTextContainer [LTTextLine \<lparr>x0 = 1, y0 = 2, x1 = 5, y1 = 6\<rparr>]] 2 = []"
    by (simp add: extract_line_bboxes_def)
  with highlight_annotation_empty
    [of "[]" "[LTTextContainer [LTTextLine \<lparr>x0 = 1, y0 = 2, x1 = 5, y1 = 6\<rparr>]]" 2
        "\<lparr>Annots = None, content = ''p1''\<rparr>"]
  show ?thesis by blast
qed

section \<open>Properties of attaching\<close>

text \<open>
  C7. Attaching appends to the page's annotation list when the page has one and creates a
  one-element list otherwise. After two attach calls the list is the old list followed by
  the two new annotations: two more entries, the earlier ones kept in place.
\<close>

theorem attach_twice:
  "(\<forall>annots. Annots pg = Some annots \<longrightarrow> Annots (attach pg a) = Some (annots @ [a])) \<and>
   (Annots pg = None \<longrightarrow> Annots (attach pg a) = Some [a]) \<and>
   annotation_list (attach (attach pg a) b) = annotation_list pg @ [a, b] \<and>
   length (annotation_list (attach (attach pg a) b)) = length (annotation_list pg) + 2 \<and>
   content (attach (attach pg a) b) = content pg"
  by (auto simp: attach_def annotation_list_def split: option.splits)

theorem attach_twice_witness:
  "Annots \<lparr>Annots = None, content = ''p1''\<rparr> = None \<and>
   Annots (attach \<lparr>Annots = None, content = ''p1''\<rparr>
     \<lparr>F = 4, Type = ''/Annot'', Subtype = ''/Highlight'', C = [1, 1, 0],
      Rect = [0, 0, 1, 1], QuadPoints = [0, 1, 1, 1, 0, 0, 1, 0]\<rparr>) =
     Some [\<lparr>F = 4, Type = ''/Annot'', Subtype = ''/Highlight'', C = [1, 1, 0],
            Rect = [0, 0, 1, 1], QuadPoints = [0, 1, 1, 1, 0, 0, 1, 0]\<rparr>]"
  using attach_twice
    [of "\<lparr>Annots = None, content = ''p1''\<rparr>"
        "\<lparr>F = 4, Type = ''/Annot'', Subtype = ''/Highlight'', C = [1, 1, 0],
          Rect = [0, 0, 1, 1], QuadPoints = [0, 1, 1, 1, 0, 0, 1, 0]\<rparr>"]
  by simp

section \<open>Properties of the citation parser\<close>



lemma not_digit [simp]:
  "\<not> is_digit CHR ''-''" "\<not> is_digit CHR '')''"
  by (simp_all add: is_digit_def)






















section \<open>Properties of the endpoint\<close>

lemma highlight_lines_skip:
  "(\<And>n. n \<in> set ns \<Longrightarrow> extract_line_bboxes layout n = []) \<Longrightarrow>
     highlight_lines layout pg ns = Inr pg"
  by (induction ns) (simp_all add: highlight_line_def)

lemma highlight_pages_unmodified:
  assumes layouts: "extract_pages env pdf_content = Inr layouts"
  shows "1 \<le> page_num \<Longrightarrow> nat (page_num - 1) + length pages \<le> length layouts \<Longrightarrow>
     (\<And>i p n. i < length pages \<Longrightarrow> (p, n) \<in> set pairs \<Longrightarrow> p = page_num + int i \<Longrightarrow>
        extract_line_bboxes (layouts ! (nat (page_num - 1) + i)) n = []) \<Longrightarrow>
     highlight_pages env pdf_content pairs page_num pages writer = Inr (writer @ pages)"
proof (induction pages arbitrary: page_num writer)
  case Nil
  show ?case by simp
next
  case (Cons pg rest)
  let ?lines = "map snd (filter (\<lambda>(p, line_num). p = page_num) pairs)"
  have idx: "0 \<le> page_num - 1 \<and> nat (page_num - 1) < length layouts"
    using Cons.prems(1,2) by simp
  have "extract_line_bboxes (layouts ! nat (page_num - 1)) n = []" if "n \<in> set ?lines" for n
  proof -
    from that have "(page_num, n) \<in> set pairs" by auto
    then show ?thesis
      using Cons.prems(3)[of 0 page_num n] by simp
  qed
  then have skip: "highlight_lines (layouts ! nat (page_num - 1)) pg ?lines = Inr pg"
    by (rule highlight_lines_skip)
  have rest: "highlight_pages env pdf_content pairs (page_num + 1) rest (writer @ [pg]) =
      Inr ((writer @ [pg]) @ rest)"
  proof (rule Cons.IH)
    show "1 \<le> page_num + 1" using Cons.prems(1) by simp
    show "nat (page_num + 1 - 1) + length rest \<le> length layouts"
      using Cons.prems(1,2) by simp
  next
    fix i p n
    assume a: "i < length rest" "(p, n) \<in> set pairs" "p = page_num + 1 + int i"
    have "nat (page_num + 1 - 1) + i = nat (page_num - 1) + Suc i"
      using Cons.prems(1) by simp
    then show "extract_line_bboxes (layouts ! (nat (page_num + 1 - 1) + i)) n = []"
      using Cons.prems(3)[of "Suc i" p n] a by simp
  qed
  show ?case
    using idx skip rest by (simp add: layouts Let_def)
qed

lemma extract_lines_Nil: "extract_lines [] = []"
  by (simp add: extract_lines_def)

text \<open>
  C8. When the document is fetched, read and laid out, and every line reference of the
  citation exceeds the line count of the page it refers to, no annotation is attached:
  the page loop hands the pages to the writer as they were read, and the response is the
  written document with status 200, not an error.
\<close>

theorem view_pdf_lines_beyond_page:
  assumes fetch: "requests_get env (PDF_URL (extract_document_name text)) = Inr (200, pdf_content)"
    and reader: "PdfReader env pdf_content = Inr pages"
    and layouts: "extract_pages env pdf_content = Inr layouts"
    and enough: "length pages \<le> length layouts"
    and refs: "extract_lines text \<noteq> []"
    and beyond: "\<forall>(p, n) \<in> set (extract_lines text). \<forall>i < length pages.
        p = int i + 1 \<longrightarrow> int (length (text_lines (layouts ! i))) < n"
    and writer: "PdfWriter_write env pages = Inr output_stream"
  shows "highlight_pages env pdf_content (extract_lines text) 1 pages [] = Inr pages \<and>
     view_pdf env text =
       \<lparr>fetched = [PDF_URL (extract_document_name text)],
        response = (File output_stream, 200)\<rparr>"
proof -
  have pages_eq: "highlight_pages env pdf_content (extract_lines text) 1 pages [] = Inr ([] @ pages)"
  proof (rule highlight_pages_unmodified[OF layouts])
    show "(1::int) \<le> 1" by simp
    show "nat (1 - 1) + length pages \<le> length layouts" using enough by simp
  next
    fix i p n
    assume a: "i < length pages" "(p, n) \<in> set (extract_lines text)" "p = 1 + int i"
    with beyond have "int (length (text_lines (layouts ! i))) < n" by auto
    then show "extract_line_bboxes (layouts ! (nat (1 - 1) + i)) n = []"
      by (simp add: extract_line_bboxes_value)
  qed
  have ne: "text \<noteq> []"
    using refs extract_lines_Nil by auto
  have doc: "highlight_document env pdf_content (extract_lines text) = Inr output_stream"
    using pages_eq by (simp add: highlight_document_def reader writer)
  have "view_pdf env text =
       \<lparr>fetched = [PDF_URL (extract_document_name text)],
        response = (File output_stream, 200)\<rparr>"
    using ne refs by (simp add: view_pdf_def Let_def fetch doc)
  with pages_eq show ?thesis by simp
qed

theorem view_pdf_lines_beyond_page_witness:
  "extract_lines ''(doc.pdf, Lines 5-7)'' = [(1, 5), (1, 6), (1, 7)] \<and>
   length (text_lines sample_layout) = 1 \<and>
   highlight_pages sample_env ''%PDF'' (extract_lines ''(doc.pdf, Lines 5-7)'') 1
     [sample_page] [] = Inr [sample_page] \<and>
   view_pdf sample_env ''(doc.pdf, Lines 5-7)'' =
     \<lparr>fetched = [''https://ioclhrchatgpt.blob.core.windows.net/hrhbtb-pdf-chunks/doc.pdf''],
      response = (File ''p1'', 200)\<rparr>"
proof -
  have name: "extract_document_name ''(doc.pdf, Lines 5-7)'' = Some ''doc.pdf''"
    by code_simp
  have refs: "extract_lines ''(doc.pdf, Lines 5-7)'' = [(1, 5), (1, 6), (1, 7)]"
    by code_simp
  have count: "length (text_lines sample_layout) = 1"
    by (simp add: sample_layout_def)
  have fetch: "requests_get sample_env (PDF_URL (extract_document_name ''(doc.pdf, Lines 5-7)'')) =
      Inr (200, ''%PDF'')"
    by (simp add: sample_env_def)
  have reader: "PdfReader sample_env ''%PDF'' = Inr [sample_page]"
    by (simp add: sample_env_def)
  have layouts: "extract_pages sample_env ''%PDF'' = Inr [sample_layout]"
    by (simp add: sample_env_def)
  have enough: "length [sample_page] \<le> length [sample_layout]"
    by simp
  have nonempty: "extract_lines ''(doc.pdf, Lines 5-7)'' \<noteq> []"
    by (simp add: refs)
  have beyond: "\<forall>(p, n) \<in> set (extract_lines ''(doc.pdf, Lines 5-7)'').
      \<forall>i < length [sample_page].
        p = int i + 1 \<longrightarrow> int (length (text_lines ([sample_layout] ! i))) < n"
    by (simp add: refs count)
  have writer: "PdfWriter_write sample_env [sample_page] = Inr ''p1''"
    by (simp add: sample_env_def sample_page_def annotation_list_def)
  from view_pdf_lines_beyond_page[OF fetch reader layouts enough nonempty beyond writer]
  show ?thesis
    by (simp add: refs count name PDF_URL_def)
qed

text \<open>
  C2. The claim fails on the code. \<open>view_pdf\<close> fetches before it looks at the line
  references: for every text the outcome records the fetch of the URL built from the
  document name, which is \<open>None\<close> when the text has no citation. A text without \<open>Lines\<close>
  therefore ends in the 500 response of a failed fetch when the store has no such
  document, and the 400 response is only reached after a successful fetch.
\<close>

theorem view_pdf_fetches_before_parsing:
  "fetched (view_pdf env text) = [PDF_URL (extract_document_name text)] \<and>
   extract_lines ''Which policy applies?'' = [] \<and>
   view_pdf missing_blob_env ''Which policy applies?'' =
     \<lparr>fetched = [''https://ioclhrchatgpt.blob.core.windows.net/hrhbtb-pdf-chunks/None''],
      response = (Text ''Unable to fetch the PDF.'', 500)\<rparr> \<and>
   view_pdf sample_env ''Which policy applies?'' =
     \<lparr>fetched = [''https://ioclhrchatgpt.blob.core.windows.net/hrhbtb-pdf-chunks/None''],
      response = (Text ''No lines to highlight.'', 400)\<rparr>"
proof -
  have a: "fetched (view_pdf env text) = [PDF_URL (extract_document_name text)]"
    by (simp add: view_pdf_def Let_def split: sum.splits prod.splits)
  have name: "extract_document_name ''Which policy applies?'' = None"
    by code_simp
  have b: "extract_lines ''Which policy applies?'' = []"
    by code_simp
  have c: "view_pdf missing_blob_env ''Which policy applies?'' =
     \<lparr>fetched = [''https://ioclhrchatgpt.blob.core.windows.net/hrhbtb-pdf-chunks/None''],
      response = (Text ''Unable to fetch the PDF.'', 500)\<rparr>"
    by (simp add: view_pdf_def name PDF_URL_def missing_blob_env_def sample_env_def)
  have d: "view_pdf sample_env ''Which policy applies?'' =
     \<lparr>fetched = [''https://ioclhrchatgpt.blob.core.windows.net/hrhbtb-pdf-chunks/None''],
      response = (Text ''No lines to highlight.'', 400)\<rparr>"
    by (simp add: view_pdf_def name b PDF_URL_def sample_env_def)
  from a b c d show ?thesis by simp
qed

end
